theory Spec2Isabelle
  imports Main "HOL-Library.Word"
begin

unbundle bit_operations_syntax

section \<open>The SDL2 backend of gnuboy: data model\<close>

text \<open>
  The development embeds the input and presentation code of \<^verbatim>\<open>sdl2.c\<close>:
  \<^verbatim>\<open>mapscancode\<close>, \<^verbatim>\<open>joy_init\<close>, \<^verbatim>\<open>joyaxis_evt\<close>, \<^verbatim>\<open>ev_poll\<close>,
  \<^verbatim>\<open>vid_init\<close>, \<^verbatim>\<open>vid_begin\<close> and \<^verbatim>\<open>vid_end\<close>. The file-level statics of the C file
  become the fields of one record that every function takes and returns. Calls into the
  host library and into the emulator core (\<^verbatim>\<open>ev_postevent\<close>) are recorded, in order, in
  two logs that are part of that record.
\<close>

subsection \<open>Enumerations and constants of the C file\<close>

datatype joyaxis = JA_X | JA_Y

datatype joyaxisvalue = JAV_LEFT_OR_UP | JAV_CENTERED | JAV_RIGHT_OR_DOWN

text \<open>The integer value of each enumerator, used where the C code indexes an array with it
  or compares it with a literal.\<close>

fun jav_num :: "joyaxisvalue \<Rightarrow> nat" where
  "jav_num JAV_LEFT_OR_UP = 0"
| "jav_num JAV_CENTERED = 1"
| "jav_num JAV_RIGHT_OR_DOWN = 2"

definition JOY_COMMIT_RANGE :: int where
  "JOY_COMMIT_RANGE = 3276"

subsection \<open>Declarations taken from headers outside the file\<close>

text \<open>
  \<^verbatim>\<open>input.h\<close> of the emulator core declares the event structure and the key codes. Only
  the two event types the backend posts are needed. The numeric values of the key codes
  are not visible from \<^verbatim>\<open>sdl2.c\<close>; they are a parameter of every function that uses them.
\<close>

datatype event_type = EV_PRESS | EV_RELEASE

record event_t =
  ev_type :: event_type
  ev_code :: int

record keycodes =
  K_JOYLEFT :: int
  K_JOYRIGHT :: int
  K_JOYUP :: int
  K_JOYDOWN :: int
  K_JOY0 :: int

text \<open>
  The values below are those of the SDL2 headers: the key symbol of the Return key, the
  ALT modifier mask (left and right ALT), the fullscreen window flag and the nine hat
  positions.
\<close>

definition SDLK_RETURN :: int where "SDLK_RETURN = 13"
definition KMOD_ALT :: "16 word" where "KMOD_ALT = 0x0300"
definition SDL_WINDOW_FULLSCREEN :: int where "SDL_WINDOW_FULLSCREEN = 1"

definition SDL_HAT_CENTERED :: "8 word" where "SDL_HAT_CENTERED = 0"
definition SDL_HAT_UP :: "8 word" where "SDL_HAT_UP = 1"
definition SDL_HAT_RIGHT :: "8 word" where "SDL_HAT_RIGHT = 2"
definition SDL_HAT_DOWN :: "8 word" where "SDL_HAT_DOWN = 4"
definition SDL_HAT_LEFT :: "8 word" where "SDL_HAT_LEFT = 8"
definition SDL_HAT_RIGHTUP :: "8 word" where "SDL_HAT_RIGHTUP = 3"
definition SDL_HAT_RIGHTDOWN :: "8 word" where "SDL_HAT_RIGHTDOWN = 6"
definition SDL_HAT_LEFTUP :: "8 word" where "SDL_HAT_LEFTUP = 9"
definition SDL_HAT_LEFTDOWN :: "8 word" where "SDL_HAT_LEFTDOWN = 12"

text \<open>
  Host events, as \<^verbatim>\<open>ev_poll\<close> reads them out of \<^verbatim>\<open>SDL_Event\<close>. Key symbols are
  \<^verbatim>\<open>Sint32\<close> values that the code only compares and copies, so they are integers here;
  the modifier state is a \<^verbatim>\<open>Uint16\<close>, hat value, axis index and button index are
  \<^verbatim>\<open>Uint8\<close>, and the axis value is a \<^verbatim>\<open>Sint16\<close>.
\<close>

datatype window_event_id =
    SDL_WINDOWEVENT_SHOWN
  | SDL_WINDOWEVENT_HIDDEN
  | SDL_WINDOWEVENT_MINIMIZED
  | SDL_WINDOWEVENT_RESTORED
  | SDL_WINDOWEVENT_OTHER

datatype sdl_event =
    SDL_WINDOWEVENT window_event_id
  | SDL_KEYDOWN int "16 word"
  | SDL_KEYUP int "16 word"
  | SDL_JOYHATMOTION "8 word"
  | SDL_JOYAXISMOTION "8 word" "16 word"
  | SDL_JOYBUTTONUP "8 word"
  | SDL_JOYBUTTONDOWN "8 word"
  | SDL_QUIT
  | SDL_OTHER_EVENT

subsection \<open>The state of the backend\<close>

text \<open>A surface is identified by its address.\<close>

type_synonym surface = nat

text \<open>The calls into the host library that the modelled functions make.\<close>

datatype sdl_call =
    SDL_SetWindowFullscreen int
  | SDL_LockSurface surface
  | SDL_UnlockSurface surface
  | SDL_UpdateTexture surface
  | SDL_RenderClear
  | SDL_RenderCopy
  | SDL_RenderPresent

text \<open>
  \<open>fb_ptr\<close> holds the surface whose pixel memory \<^verbatim>\<open>fb.ptr\<close> points to; \<open>screens\<close> is
  the two-element array \<^verbatim>\<open>screens[2]\<close>; \<open>posted\<close> is the sequence of events handed to
  \<^verbatim>\<open>ev_postevent\<close>, oldest first; \<open>sdl_calls\<close> is the sequence of host calls, oldest
  first.
\<close>

record sys_state =
  fullscreen :: int
  use_altenter :: int
  Xstatus :: joyaxisvalue
  Ystatus :: joyaxisvalue
  screen :: surface
  screens :: "surface \<times> surface"
  fb_enabled :: int
  fb_ptr :: surface
  posted :: "event_t list"
  sdl_calls :: "sdl_call list"

text \<open>
  Modelled from the spec: \<^verbatim>\<open>ev_postevent\<close> belongs to the emulator core and is not part of
  \<^verbatim>\<open>sdl2.c\<close>. The spec describes the core's event queue as a FIFO that receives the
  posted events in order, so a call appends its event to \<open>posted\<close>.
\<close>

definition ev_postevent :: "event_t \<Rightarrow> sys_state \<Rightarrow> sys_state" where
  "ev_postevent ev st = st\<lparr>posted := posted st @ [ev]\<rparr>"

definition sdl :: "sdl_call \<Rightarrow> sys_state \<Rightarrow> sys_state" where
  "sdl c st = st\<lparr>sdl_calls := sdl_calls st @ [c]\<rparr>"

section \<open>The key mapper\<close>

text \<open>
  \<^verbatim>\<open>keymap\<close> is an external array of rows \<^verbatim>\<open>{ scancode, localcode }\<close> that ends with a
  row whose first entry is 0. The list holds the rows in order; the search stops at the
  first row whose key is 0, and the end of the list stands for that closing row. After
  the search the two range tests on \<^verbatim>\<open>'0'..'9'\<close> (48 to 57) and \<^verbatim>\<open>'a'..'z'\<close>
  (97 to 122) follow.
\<close>

type_synonym keymap = "(int \<times> int) list"

definition unmapped :: "int \<Rightarrow> int" where
  "unmapped keysym =
     (if keysym \<ge> 48 \<and> keysym \<le> 57 then keysym
      else if keysym \<ge> 97 \<and> keysym \<le> 122 then keysym
      else 0)"

fun mapscancode :: "keymap \<Rightarrow> int \<Rightarrow> int" where
  "mapscancode [] keysym = unmapped keysym"
| "mapscancode ((k, c) # rows) keysym =
     (if k = 0 then unmapped keysym
      else if k = keysym then c
      else mapscancode rows keysym)"

text \<open>The rows in front of the closing row: the part of the table the loop can reach.\<close>

definition keymap_rows :: "keymap \<Rightarrow> (int \<times> int) list" where
  "keymap_rows km = takeWhile (\<lambda>row. fst row \<noteq> 0) km"

definition alnum :: "int \<Rightarrow> bool" where
  "alnum keysym = ((48 \<le> keysym \<and> keysym \<le> 57) \<or> (97 \<le> keysym \<and> keysym \<le> 122))"

section \<open>The axis debouncer\<close>

text \<open>
  \<^verbatim>\<open>axis_data[axis].axis\<close> points to \<^verbatim>\<open>Xstatus\<close> or \<^verbatim>\<open>Ystatus\<close>;
  \<^verbatim>\<open>axis_data[axis].action\<close> is the three-element table of key codes, indexed by the
  axis state.
\<close>

fun axis_status :: "joyaxis \<Rightarrow> sys_state \<Rightarrow> joyaxisvalue" where
  "axis_status JA_X st = Xstatus st"
| "axis_status JA_Y st = Ystatus st"

fun set_axis_status :: "joyaxis \<Rightarrow> joyaxisvalue \<Rightarrow> sys_state \<Rightarrow> sys_state" where
  "set_axis_status JA_X v st = st\<lparr>Xstatus := v\<rparr>"
| "set_axis_status JA_Y v st = st\<lparr>Ystatus := v\<rparr>"

fun action :: "keycodes \<Rightarrow> joyaxis \<Rightarrow> int list" where
  "action K JA_X = [K_JOYLEFT K, 0, K_JOYRIGHT K]"
| "action K JA_Y = [K_JOYUP K, 0, K_JOYDOWN K]"

definition joy_init :: "sys_state \<Rightarrow> sys_state" where
  "joy_init st = st\<lparr>Xstatus := JAV_CENTERED, Ystatus := JAV_CENTERED\<rparr>"

definition joyaxis_evt :: "keycodes \<Rightarrow> joyaxis \<Rightarrow> joyaxisvalue \<Rightarrow> sys_state \<Rightarrow> sys_state" where
  "joyaxis_evt K axis newstate st =
     (if axis_status axis st = newstate then st
      else
        let st1 = ev_postevent
                    \<lparr>ev_type = EV_RELEASE,
                     ev_code = action K axis ! jav_num (axis_status axis st)\<rparr> st;
            st2 = set_axis_status axis newstate st1
        in if jav_num newstate \<noteq> 1
           then ev_postevent
                  \<lparr>ev_type = EV_PRESS, ev_code = action K axis ! jav_num newstate\<rparr> st2
           else st2)"

section \<open>The event dispatcher\<close>

text \<open>
  The three-way comparison of an axis reading with \<^verbatim>\<open>JOY_COMMIT_RANGE\<close>. In the C code
  each branch calls \<^verbatim>\<open>joyaxis_evt\<close> with the chosen state; here the choice is a function
  of its own and the call is made once with its result.
\<close>

definition jaxis_value :: "16 word \<Rightarrow> joyaxisvalue" where
  "jaxis_value v =
     (if sint v > JOY_COMMIT_RANGE then JAV_RIGHT_OR_DOWN
      else if sint v < - JOY_COMMIT_RANGE then JAV_LEFT_OR_UP
      else JAV_CENTERED)"

definition hat_evt :: "keycodes \<Rightarrow> 8 word \<Rightarrow> sys_state \<Rightarrow> sys_state" where
  "hat_evt K v st =
     (if v = SDL_HAT_LEFTUP then
        joyaxis_evt K JA_Y JAV_LEFT_OR_UP (joyaxis_evt K JA_X JAV_LEFT_OR_UP st)
      else if v = SDL_HAT_UP then
        joyaxis_evt K JA_Y JAV_LEFT_OR_UP st
      else if v = SDL_HAT_RIGHTUP then
        joyaxis_evt K JA_Y JAV_LEFT_OR_UP (joyaxis_evt K JA_X JAV_RIGHT_OR_DOWN st)
      else if v = SDL_HAT_LEFT then
        joyaxis_evt K JA_X JAV_LEFT_OR_UP st
      else if v = SDL_HAT_CENTERED then
        joyaxis_evt K JA_Y JAV_CENTERED (joyaxis_evt K JA_X JAV_CENTERED st)
      else if v = SDL_HAT_RIGHT then
        joyaxis_evt K JA_X JAV_RIGHT_OR_DOWN st
      else if v = SDL_HAT_LEFTDOWN then
        joyaxis_evt K JA_Y JAV_RIGHT_OR_DOWN (joyaxis_evt K JA_X JAV_LEFT_OR_UP st)
      else if v = SDL_HAT_DOWN then
        joyaxis_evt K JA_Y JAV_RIGHT_OR_DOWN st
      else if v = SDL_HAT_RIGHTDOWN then
        joyaxis_evt K JA_Y JAV_RIGHT_OR_DOWN (joyaxis_evt K JA_X JAV_RIGHT_OR_DOWN st)
      else st)"

text \<open>
  One pass of the body of the \<^verbatim>\<open>while (SDL_PollEvent(&event))\<close> loop for every event
  type except \<^verbatim>\<open>SDL_QUIT\<close>, which leaves the process and is handled in \<open>ev_poll\<close>.
\<close>

fun ev_dispatch :: "keycodes \<Rightarrow> keymap \<Rightarrow> sdl_event \<Rightarrow> sys_state \<Rightarrow> sys_state" where
  "ev_dispatch K km (SDL_WINDOWEVENT w) st =
     (case w of
        SDL_WINDOWEVENT_MINIMIZED \<Rightarrow> st\<lparr>fb_enabled := 0\<rparr>
      | SDL_WINDOWEVENT_HIDDEN \<Rightarrow> st\<lparr>fb_enabled := 0\<rparr>
      | SDL_WINDOWEVENT_SHOWN \<Rightarrow> st\<lparr>fb_enabled := 1\<rparr>
      | SDL_WINDOWEVENT_RESTORED \<Rightarrow> st\<lparr>fb_enabled := 1\<rparr>
      | SDL_WINDOWEVENT_OTHER \<Rightarrow> st)"
| "ev_dispatch K km (SDL_KEYDOWN keysym kmod) st =
     (let st1 =
        (if keysym = SDLK_RETURN \<and> kmod AND KMOD_ALT \<noteq> 0 then
           (sdl (SDL_SetWindowFullscreen
                   (if fullscreen st \<noteq> 0 then 0 else SDL_WINDOW_FULLSCREEN)) st)
             \<lparr>fullscreen := (if fullscreen st = 0 then 1 else 0)\<rparr>
         else st)
      in ev_postevent \<lparr>ev_type = EV_PRESS, ev_code = mapscancode km keysym\<rparr> st1)"
| "ev_dispatch K km (SDL_KEYUP keysym kmod) st =
     ev_postevent \<lparr>ev_type = EV_RELEASE, ev_code = mapscancode km keysym\<rparr> st"
| "ev_dispatch K km (SDL_JOYHATMOTION v) st = hat_evt K v st"
| "ev_dispatch K km (SDL_JOYAXISMOTION a v) st =
     (if a = 0 then joyaxis_evt K JA_X (jaxis_value v) st
      else if a = 1 then joyaxis_evt K JA_Y (jaxis_value v) st
      else st)"
| "ev_dispatch K km (SDL_JOYBUTTONUP b) st =
     (if uint b > 15 then st
      else ev_postevent \<lparr>ev_type = EV_RELEASE, ev_code = K_JOY0 K + uint b\<rparr> st)"
| "ev_dispatch K km (SDL_JOYBUTTONDOWN b) st =
     (if uint b > 15 then st
      else ev_postevent \<lparr>ev_type = EV_PRESS, ev_code = K_JOY0 K + uint b\<rparr> st)"
| "ev_dispatch K km SDL_QUIT st = st"
| "ev_dispatch K km SDL_OTHER_EVENT st = st"

text \<open>
  \<^verbatim>\<open>ev_poll\<close> takes the events the host queue holds, oldest first. It either returns
  with the queue drained or leaves the process through \<^verbatim>\<open>exit(1)\<close> at the first quit
  request, with the rest of the queue unread.
\<close>

datatype outcome =
    Returned (state_of: sys_state)
  | Exited (exit_status: int) (state_of: sys_state)

fun ev_poll :: "keycodes \<Rightarrow> keymap \<Rightarrow> sdl_event list \<Rightarrow> sys_state \<Rightarrow> outcome" where
  "ev_poll K km [] st = Returned st"
| "ev_poll K km (e # es) st =
     (if e = SDL_QUIT then Exited 1 st
      else ev_poll K km es (ev_dispatch K km e st))"

section \<open>The presentation pipeline\<close>

text \<open>
  \<^verbatim>\<open>vid_init\<close>, reduced to what it does to the modelled state: the two surfaces that
  \<^verbatim>\<open>SDL_CreateRGBSurface\<close> returns are its arguments \<open>s0\<close> and \<open>s1\<close>; window, renderer,
  texture and the pixel-format fields of \<^verbatim>\<open>fb\<close> are not part of the state. The two ways
  the C function dies (the host library or the window cannot be set up) are the two error
  values.
\<close>

datatype init_error = SDL_Init_failed | SDL_CreateWindow_failed

definition vid_init ::
  "bool \<Rightarrow> bool \<Rightarrow> surface \<Rightarrow> surface \<Rightarrow> sys_state \<Rightarrow> init_error + sys_state" where
  "vid_init init_ok win_ok s0 s1 st =
     (if \<not> init_ok then Inl SDL_Init_failed
      else if \<not> win_ok then Inl SDL_CreateWindow_failed
      else
        let st1 = st\<lparr>screens := (s0, s1)\<rparr>;
            st2 = st1\<lparr>screen := fst (screens st1)\<rparr>;
            st3 = joy_init st2;
            st4 = sdl (SDL_LockSurface (screen st3)) st3;
            st5 = st4\<lparr>fb_ptr := screen st4\<rparr>;
            st6 = sdl (SDL_UnlockSurface (screen st5)) st5
        in Inr (st6\<lparr>fb_enabled := 1\<rparr>))"

definition vid_begin :: "sys_state \<Rightarrow> sys_state" where
  "vid_begin st =
     (let st1 = sdl (SDL_LockSurface (screen st)) st
      in st1\<lparr>fb_ptr := screen st1\<rparr>)"

definition vid_end :: "sys_state \<Rightarrow> sys_state" where
  "vid_end st =
     (let st1 = sdl (SDL_UnlockSurface (screen st)) st
      in if fb_enabled st1 \<noteq> 0 then
           let st2 = sdl (SDL_UpdateTexture (screen st1)) st1;
               st3 = sdl SDL_RenderClear st2;
               st4 = sdl SDL_RenderCopy st3;
               st5 = sdl SDL_RenderPresent st4
           in if screen st5 = fst (screens st5)
              then st5\<lparr>screen := snd (screens st5)\<rparr>
              else st5\<lparr>screen := snd (screens st5)\<rparr>
         else st1)"

section \<open>Observations used in the statements\<close>

text \<open>The events posted between an earlier state \<open>st\<close> and a later state \<open>st'\<close>.\<close>

definition new_events :: "sys_state \<Rightarrow> sys_state \<Rightarrow> event_t list" where
  "new_events st st' = drop (length (posted st)) (posted st')"

text \<open>The host calls made between an earlier state \<open>st\<close> and a later state \<open>st'\<close>.\<close>

definition new_calls :: "sys_state \<Rightarrow> sys_state \<Rightarrow> sdl_call list" where
  "new_calls st st' = drop (length (sdl_calls st)) (sdl_calls st')"

definition count_type :: "event_type \<Rightarrow> event_t list \<Rightarrow> nat" where
  "count_type t evs = length (filter (\<lambda>e. ev_type e = t) evs)"

definition press :: "int \<Rightarrow> event_t" where
  "press c = \<lparr>ev_type = EV_PRESS, ev_code = c\<rparr>"

definition release :: "int \<Rightarrow> event_t" where
  "release c = \<lparr>ev_type = EV_RELEASE, ev_code = c\<rparr>"

text \<open>The frame loop of the caller: \<open>n\<close> times \<^verbatim>\<open>vid_begin\<close> followed by \<^verbatim>\<open>vid_end\<close>.\<close>

fun frames :: "nat \<Rightarrow> sys_state \<Rightarrow> sys_state" where
  "frames 0 st = st"
| "frames (Suc n) st = frames n (vid_end (vid_begin st))"

text \<open>Which of the two array slots the front surface \<^verbatim>\<open>screen\<close> is: 0 or 1.\<close>

definition front_index :: "sys_state \<Rightarrow> nat" where
  "front_index st = (if screen st = fst (screens st) then 0 else 1)"

text \<open>The X-axis motion events for a sequence of raw readings.\<close>

definition x_readings :: "16 word list \<Rightarrow> sdl_event list" where
  "x_readings vs = map (SDL_JOYAXISMOTION 0) vs"

text \<open>Applies a change of state under an outcome.\<close>

fun map_outcome :: "(sys_state \<Rightarrow> sys_state) \<Rightarrow> outcome \<Rightarrow> outcome" where
  "map_outcome f (Returned st) = Returned (f st)"
| "map_outcome f (Exited n st) = Exited n (f st)"

subsection \<open>Sample inputs\<close>

text \<open>
  A sample assignment of the key codes (five distinct non-zero numbers), a sample key
  table, and the state of the statics when the program starts (the initialisers of the C
  file; surfaces not yet created).
\<close>

definition sample_keys :: keycodes where
  "sample_keys =
     \<lparr>K_JOYLEFT = 301, K_JOYRIGHT = 302, K_JOYUP = 303, K_JOYDOWN = 304, K_JOY0 = 320\<rparr>"

definition sample_keymap :: keymap where
  "sample_keymap = [(27, 200), (13, 201), (97, 202), (0, 0)]"

definition statics :: sys_state where
  "statics =
     \<lparr>fullscreen = 0, use_altenter = 1,
      Xstatus = JAV_LEFT_OR_UP, Ystatus = JAV_LEFT_OR_UP,
      screen = 0, screens = (0, 0), fb_enabled = 0, fb_ptr = 0,
      posted = [], sdl_calls = []\<rparr>"

text \<open>The state after a successful \<^verbatim>\<open>vid_init\<close> with surfaces at addresses 1000 and
  2000.\<close>

definition ready :: sys_state where
  "ready =
     \<lparr>fullscreen = 0, use_altenter = 1,
      Xstatus = JAV_CENTERED, Ystatus = JAV_CENTERED,
      screen = 1000, screens = (1000, 2000), fb_enabled = 1, fb_ptr = 1000,
      posted = [], sdl_calls = [SDL_LockSurface 1000, SDL_UnlockSurface 1000]\<rparr>"

text \<open>The same state with the window hidden: \<^verbatim>\<open>fb.enabled\<close> is 0.\<close>

definition hidden :: sys_state where
  "hidden = ready\<lparr>fb_enabled := 0\<rparr>"

section \<open>Basic facts\<close>

lemma vid_init_ready: "vid_init True True 1000 2000 statics = Inr ready"
  by (simp add: vid_init_def joy_init_def sdl_def statics_def ready_def Let_def)

lemma posted_ev_postevent: "posted (ev_postevent e st) = posted st @ [e]"
  by (simp add: ev_postevent_def)

lemma new_events_append: "posted st' = posted st @ es \<Longrightarrow> new_events st st' = es"
  by (simp add: new_events_def)

section \<open>Properties of the axis debouncer\<close>

lemma axis_status_joyaxis_evt: "axis_status a (joyaxis_evt K a s st) = s"
  by (cases a) (simp_all add: joyaxis_evt_def ev_postevent_def Let_def)

lemma joyaxis_evt_same: "axis_status a st = s \<Longrightarrow> joyaxis_evt K a s st = st"
  by (simp add: joyaxis_evt_def)

lemma posted_set_axis_status: "posted (set_axis_status a s st) = posted st"
  by (cases a) simp_all

lemma posted_joyaxis_evt:
  "posted (joyaxis_evt K a s st) =
     posted st @
       (if axis_status a st = s then []
        else release (action K a ! jav_num (axis_status a st)) #
             (if s = JAV_CENTERED then [] else [press (action K a ! jav_num s)]))"
  by (cases s)
     (simp_all add: joyaxis_evt_def Let_def posted_ev_postevent posted_set_axis_status
        press_def release_def)

lemma new_events_joyaxis_evt:
  "new_events st (joyaxis_evt K a s st) =
       (if axis_status a st = s then []
        else release (action K a ! jav_num (axis_status a st)) #
             (if s = JAV_CENTERED then [] else [press (action K a ! jav_num s)]))"
  by (rule new_events_append) (rule posted_joyaxis_evt)

lemma joyaxis_evt_X_change:
  "Xstatus st \<noteq> s \<Longrightarrow>
   joyaxis_evt K JA_X s st =
     st\<lparr>Xstatus := s,
        posted := posted st @ release (action K JA_X ! jav_num (Xstatus st)) #
                    (if s = JAV_CENTERED then [] else [press (action K JA_X ! jav_num s)])\<rparr>"
  by (cases s) (simp_all add: joyaxis_evt_def Let_def ev_postevent_def press_def release_def)

lemma jaxis_value_samples:
  "jaxis_value 0 = JAV_CENTERED"
  "jaxis_value 4000 = JAV_RIGHT_OR_DOWN"
  "jaxis_value (- 4000) = JAV_LEFT_OR_UP"
  by (simp_all add: jaxis_value_def JOY_COMMIT_RANGE_def)

text \<open>
  Claim C1, as the spec states it, fails on the code. With the X axis centered, the first
  update to RIGHT_OR_DOWN posts two events and the first of them is a RELEASE: the release
  of the prior state is posted without a test, with the code 0 that the table holds for
  the centered state.
\<close>

theorem joyaxis_evt_centered_counterexample:
  "axis_status JA_X ready = JAV_CENTERED \<and>
   new_events ready (joyaxis_evt sample_keys JA_X JAV_RIGHT_OR_DOWN ready) =
     [release 0, press 302] \<and>
   count_type EV_RELEASE
     (new_events ready (joyaxis_evt sample_keys JA_X JAV_RIGHT_OR_DOWN ready)) = 1"
  by (simp add: new_events_joyaxis_evt ready_def sample_keys_def count_type_def
      press_def release_def)

text \<open>
  Claim C1, amended. Starting from the centered state of an axis, the first update to a
  non-centered state posts exactly two events: a RELEASE with code 0 (the table entry of
  the centered state), then one PRESS for the key bound to that axis and state. For every
  update, a RELEASE with a non-zero code is posted only when the state of the axis before
  the update is non-centered, and its code is the key bound to that prior state; so a
  RELEASE for the key bound to a non-centered state, the key's code being non-zero, is
  posted only when the state of the axis before the update is non-centered.
\<close>

theorem joyaxis_evt_first_update:
  "(axis_status axis st = JAV_CENTERED \<and> s \<noteq> JAV_CENTERED \<longrightarrow>
      new_events st (joyaxis_evt K axis s st) =
        [release 0, press (action K axis ! jav_num s)]) \<and>
   (e \<in> set (new_events st (joyaxis_evt K axis s' st)) \<and> ev_type e = EV_RELEASE \<and>
      ev_code e \<noteq> 0 \<longrightarrow>
      axis_status axis st \<noteq> JAV_CENTERED \<and>
      ev_code e = action K axis ! jav_num (axis_status axis st)) \<and>
   (d \<noteq> JAV_CENTERED \<and> action K axis ! jav_num d \<noteq> 0 \<and>
      release (action K axis ! jav_num d) \<in> set (new_events st (joyaxis_evt K axis s' st))
      \<longrightarrow> axis_status axis st \<noteq> JAV_CENTERED)"
proof (intro conjI impI)
  assume "axis_status axis st = JAV_CENTERED \<and> s \<noteq> JAV_CENTERED"
  then show "new_events st (joyaxis_evt K axis s st) =
      [release 0, press (action K axis ! jav_num s)]"
    by (cases axis) (auto simp: new_events_joyaxis_evt)
next
  assume a: "e \<in> set (new_events st (joyaxis_evt K axis s' st)) \<and>
      ev_type e = EV_RELEASE \<and> ev_code e \<noteq> 0"
  then have e: "e = release (action K axis ! jav_num (axis_status axis st))"
    by (auto simp: new_events_joyaxis_evt press_def release_def split: if_splits)
  with a show "axis_status axis st \<noteq> JAV_CENTERED"
    by (cases axis) (auto simp: release_def)
  from e show "ev_code e = action K axis ! jav_num (axis_status axis st)"
    by (simp add: release_def)
next
  assume a: "d \<noteq> JAV_CENTERED \<and> action K axis ! jav_num d \<noteq> 0 \<and>
      release (action K axis ! jav_num d) \<in> set (new_events st (joyaxis_evt K axis s' st))"
  then have "action K axis ! jav_num d = action K axis ! jav_num (axis_status axis st)"
    by (auto simp: new_events_joyaxis_evt press_def release_def split: if_splits)
  with a show "axis_status axis st \<noteq> JAV_CENTERED"
    by (cases axis) auto
qed

text \<open>
  Witness for C1: the Y axis is centered and goes down, which posts the release of code 0
  and the press of the DOWN key; then, from the state reached, the update back to the
  center posts the release of the DOWN key, whose code is not 0, and the prior state is
  not the centered one.
\<close>

theorem joyaxis_evt_first_update_witness:
  "(axis_status JA_Y ready = JAV_CENTERED \<and> JAV_RIGHT_OR_DOWN \<noteq> JAV_CENTERED) \<and>
   new_events ready (joyaxis_evt sample_keys JA_Y JAV_RIGHT_OR_DOWN ready) =
     [release 0, press 304] \<and>
   (release 304 \<in> set (new_events (ready\<lparr>Ystatus := JAV_RIGHT_OR_DOWN\<rparr>)
       (joyaxis_evt sample_keys JA_Y JAV_CENTERED (ready\<lparr>Ystatus := JAV_RIGHT_OR_DOWN\<rparr>))) \<and>
    ev_type (release 304) = EV_RELEASE \<and> ev_code (release 304) \<noteq> 0) \<and>
   (JAV_RIGHT_OR_DOWN \<noteq> JAV_CENTERED \<and>
    action sample_keys JA_Y ! jav_num JAV_RIGHT_OR_DOWN \<noteq> 0 \<and>
    release (action sample_keys JA_Y ! jav_num JAV_RIGHT_OR_DOWN) \<in>
      set (new_events (ready\<lparr>Ystatus := JAV_RIGHT_OR_DOWN\<rparr>)
       (joyaxis_evt sample_keys JA_Y JAV_CENTERED (ready\<lparr>Ystatus := JAV_RIGHT_OR_DOWN\<rparr>)))) \<and>
   axis_status JA_Y (ready\<lparr>Ystatus := JAV_RIGHT_OR_DOWN\<rparr>) \<noteq> JAV_CENTERED"
proof -
  let ?down = "ready\<lparr>Ystatus := JAV_RIGHT_OR_DOWN\<rparr>"
  have h1: "axis_status JA_Y ready = JAV_CENTERED \<and> JAV_RIGHT_OR_DOWN \<noteq> JAV_CENTERED"
    by (simp add: ready_def)
  have h2: "release 304 \<in>
      set (new_events ?down (joyaxis_evt sample_keys JA_Y JAV_CENTERED ?down)) \<and>
      ev_type (release 304) = EV_RELEASE \<and> ev_code (release 304) \<noteq> 0"
    by (simp add: new_events_joyaxis_evt sample_keys_def release_def)
  have h3: "JAV_RIGHT_OR_DOWN \<noteq> JAV_CENTERED \<and>
      action sample_keys JA_Y ! jav_num JAV_RIGHT_OR_DOWN \<noteq> 0 \<and>
      release (action sample_keys JA_Y ! jav_num JAV_RIGHT_OR_DOWN) \<in>
        set (new_events ?down (joyaxis_evt sample_keys JA_Y JAV_CENTERED ?down))"
    by (simp add: new_events_joyaxis_evt sample_keys_def release_def)
  from joyaxis_evt_first_update
    [of JA_Y ready JAV_RIGHT_OR_DOWN sample_keys "release 304" JAV_CENTERED]
  have c1: "new_events ready (joyaxis_evt sample_keys JA_Y JAV_RIGHT_OR_DOWN ready) =
     [release 0, press 304]"
    using h1 by (simp add: sample_keys_def)
  from joyaxis_evt_first_update
    [of JA_Y ?down JAV_RIGHT_OR_DOWN sample_keys "release 304" JAV_CENTERED
      JAV_RIGHT_OR_DOWN]
  have c2: "axis_status JA_Y ?down \<noteq> JAV_CENTERED"
    using h3 by blast
  from h1 h2 h3 c1 c2 show ?thesis by blast
qed

text \<open>
  Claim C7. For every axis and every state \<open>s\<close>, a second call of \<^verbatim>\<open>joyaxis_evt\<close> with
  the same \<open>s\<close> is a no-op: it leaves the whole state, the axis registers included, as
  the first call left it and posts nothing, so the two calls together post exactly the
  events of the first call; and the first call posts at most one PRESS and at most one
  RELEASE.
\<close>

theorem joyaxis_evt_idempotent:
  "joyaxis_evt K a s (joyaxis_evt K a s st) = joyaxis_evt K a s st \<and>
   new_events (joyaxis_evt K a s st) (joyaxis_evt K a s (joyaxis_evt K a s st)) = [] \<and>
   new_events st (joyaxis_evt K a s (joyaxis_evt K a s st)) =
     new_events st (joyaxis_evt K a s st) \<and>
   count_type EV_PRESS (new_events st (joyaxis_evt K a s st)) \<le> 1 \<and>
   count_type EV_RELEASE (new_events st (joyaxis_evt K a s st)) \<le> 1"
  by (simp add: joyaxis_evt_same axis_status_joyaxis_evt new_events_joyaxis_evt
        count_type_def press_def release_def)
     (simp add: new_events_def)

text \<open>
  Claim C2, as the spec states it, fails on the code. The readings 0, 4000, 4000, -4000, 0
  on the X axis, from the centered state, post five events and not four: the second
  reading posts a RELEASE with code 0 in front of PRESS(RIGHT).
\<close>

theorem x_readings_counterexample:
  "length (new_events ready (state_of
      (ev_poll sample_keys sample_keymap (x_readings [0, 4000, 4000, - 4000, 0]) ready)))
     = 5 \<and>
   new_events ready (state_of
      (ev_poll sample_keys sample_keymap (x_readings [0, 4000, 4000, - 4000, 0]) ready))
     \<noteq> [press 302, release 302, press 301, release 301]"
  by (simp add: x_readings_def jaxis_value_samples joyaxis_evt_same joyaxis_evt_X_change
      new_events_def ready_def sample_keys_def press_def release_def)

text \<open>
  Claim C2, amended. Feeding the X axis the readings 0, 4000, 4000, -4000, 0 through the
  comparison with the threshold 3276 and the debouncer, starting from the centered state,
  posts exactly five events, in order: RELEASE with code 0 and PRESS(RIGHT) after the
  second reading, RELEASE(RIGHT) and PRESS(LEFT) after the fourth, RELEASE(LEFT) after the
  fifth. The first and the third reading post nothing.
\<close>

theorem x_readings_scenario:
  assumes "Xstatus st = JAV_CENTERED"
  shows "ev_poll K km (x_readings [0]) st = Returned st \<and>
    new_events st (state_of (ev_poll K km (x_readings [0, 4000]) st)) =
      [release 0, press (K_JOYRIGHT K)] \<and>
    new_events st (state_of (ev_poll K km (x_readings [0, 4000, 4000]) st)) =
      [release 0, press (K_JOYRIGHT K)] \<and>
    new_events st (state_of (ev_poll K km (x_readings [0, 4000, 4000, - 4000]) st)) =
      [release 0, press (K_JOYRIGHT K), release (K_JOYRIGHT K), press (K_JOYLEFT K)] \<and>
    new_events st (state_of (ev_poll K km (x_readings [0, 4000, 4000, - 4000, 0]) st)) =
      [release 0, press (K_JOYRIGHT K), release (K_JOYRIGHT K), press (K_JOYLEFT K),
       release (K_JOYLEFT K)]"
  using assms
  by (simp add: x_readings_def jaxis_value_samples joyaxis_evt_same joyaxis_evt_X_change
      new_events_def)

text \<open>Witness for C2: the state after \<^verbatim>\<open>vid_init\<close>, with the sample key codes.\<close>

theorem x_readings_scenario_witness:
  "Xstatus ready = JAV_CENTERED \<and>
   ev_poll sample_keys sample_keymap (x_readings [0]) ready = Returned ready \<and>
   new_events ready (state_of
      (ev_poll sample_keys sample_keymap (x_readings [0, 4000, 4000, - 4000, 0]) ready)) =
     [release 0, press 302, release 302, press 301, release 301]"
proof -
  have h: "Xstatus ready = JAV_CENTERED" by (simp add: ready_def)
  from x_readings_scenario [OF h, of sample_keys sample_keymap] h
  show ?thesis by (simp add: sample_keys_def)
qed

section \<open>Properties of the event dispatcher\<close>

lemma ev_poll_single:
  "e \<noteq> SDL_QUIT \<Longrightarrow> ev_poll K km [e] st = Returned (ev_dispatch K km e st)"
  by simp

text \<open>
  Claim C5, as the spec states it, fails on the code. A reading equal to the threshold
  3276 is not greater than it, so it is read as centered and not as RIGHT_OR_DOWN; in the
  same way -3276 is read as centered and not as LEFT_OR_UP. From the centered state the
  reading 3276 on the X axis leaves the register centered and posts nothing.
\<close>

theorem jaxis_threshold_counterexample:
  "\<not> jaxis_value 3276 = JAV_RIGHT_OR_DOWN \<and>
   \<not> jaxis_value (- 3276) = JAV_LEFT_OR_UP \<and>
   ev_poll sample_keys sample_keymap [SDL_JOYAXISMOTION 0 3276] ready = Returned ready"
  by (simp add: jaxis_value_def JOY_COMMIT_RANGE_def joyaxis_evt_same ready_def)

text \<open>
  Claim C5, amended. A raw axis value is compared strictly with the threshold 3276: a
  value of 3277 or above is read as RIGHT_OR_DOWN, a value of -3277 or below as
  LEFT_OR_UP, and every value from -3276 to 3276, both thresholds included, as CENTERED.
  After an axis-motion event for axis 0 (axis 1) the X (Y) register holds that state.
\<close>

theorem jaxis_threshold:
  "jaxis_value v =
     (if 3277 \<le> sint v then JAV_RIGHT_OR_DOWN
      else if sint v \<le> - 3277 then JAV_LEFT_OR_UP else JAV_CENTERED) \<and>
   jaxis_value 3275 = JAV_CENTERED \<and> jaxis_value 3276 = JAV_CENTERED \<and>
   jaxis_value 3277 = JAV_RIGHT_OR_DOWN \<and>
   jaxis_value (- 3275) = JAV_CENTERED \<and> jaxis_value (- 3276) = JAV_CENTERED \<and>
   jaxis_value (- 3277) = JAV_LEFT_OR_UP \<and>
   Xstatus (state_of (ev_poll K km [SDL_JOYAXISMOTION 0 v] st)) = jaxis_value v \<and>
   Ystatus (state_of (ev_poll K km [SDL_JOYAXISMOTION 1 v] st)) = jaxis_value v"
  using axis_status_joyaxis_evt [of JA_X K "jaxis_value v" st]
    axis_status_joyaxis_evt [of JA_Y K "jaxis_value v" st]
  by (simp add: jaxis_value_def JOY_COMMIT_RANGE_def)

text \<open>
  Claim C8. For a joystick button event with an index from 0 to 15, \<^verbatim>\<open>ev_poll\<close> posts
  exactly one event, with code \<^verbatim>\<open>K_JOY0\<close> plus the index, a PRESS for button-down and a
  RELEASE for button-up, and changes nothing else; for an index above 15 it posts nothing
  and leaves the state as it is. This holds for a queue that holds the button event
  alone, and for the button event at the head of any queue, where polling goes on with
  the rest of the queue from the state just described.
\<close>

theorem joybutton_events:
  "(uint b \<le> 15 \<longrightarrow>
      ev_dispatch K km (SDL_JOYBUTTONDOWN b) st =
        st\<lparr>posted := posted st @ [press (K_JOY0 K + uint b)]\<rparr> \<and>
      ev_dispatch K km (SDL_JOYBUTTONUP b) st =
        st\<lparr>posted := posted st @ [release (K_JOY0 K + uint b)]\<rparr> \<and>
      ev_poll K km [SDL_JOYBUTTONDOWN b] st =
        Returned (st\<lparr>posted := posted st @ [press (K_JOY0 K + uint b)]\<rparr>) \<and>
      ev_poll K km [SDL_JOYBUTTONUP b] st =
        Returned (st\<lparr>posted := posted st @ [release (K_JOY0 K + uint b)]\<rparr>) \<and>
      new_events st (state_of (ev_poll K km [SDL_JOYBUTTONDOWN b] st)) =
        [press (K_JOY0 K + uint b)] \<and>
      new_events st (state_of (ev_poll K km [SDL_JOYBUTTONUP b] st)) =
        [release (K_JOY0 K + uint b)] \<and>
      ev_poll K km (SDL_JOYBUTTONDOWN b # es) st =
        ev_poll K km es (st\<lparr>posted := posted st @ [press (K_JOY0 K + uint b)]\<rparr>) \<and>
      ev_poll K km (SDL_JOYBUTTONUP b # es) st =
        ev_poll K km es (st\<lparr>posted := posted st @ [release (K_JOY0 K + uint b)]\<rparr>)) \<and>
   (15 < uint b' \<longrightarrow>
      ev_dispatch K km (SDL_JOYBUTTONDOWN b') st = st \<and>
      ev_dispatch K km (SDL_JOYBUTTONUP b') st = st \<and>
      ev_poll K km [SDL_JOYBUTTONDOWN b'] st = Returned st \<and>
      ev_poll K km [SDL_JOYBUTTONUP b'] st = Returned st \<and>
      new_events st (state_of (ev_poll K km [SDL_JOYBUTTONDOWN b'] st)) = [] \<and>
      new_events st (state_of (ev_poll K km [SDL_JOYBUTTONUP b'] st)) = [] \<and>
      ev_poll K km (SDL_JOYBUTTONDOWN b' # es) st = ev_poll K km es st \<and>
      ev_poll K km (SDL_JOYBUTTONUP b' # es) st = ev_poll K km es st)"
  by (simp add: ev_postevent_def press_def release_def new_events_def)

text \<open>
  Witness for C8: button 3 is in range, and polling its down (up) event posts the one
  PRESS (RELEASE) with code 320 + 3; button 16 is out of range, and polling its event
  posts nothing.
\<close>

theorem joybutton_events_witness:
  "uint (3 :: 8 word) \<le> 15 \<and> 15 < uint (16 :: 8 word) \<and>
   ev_dispatch sample_keys sample_keymap (SDL_JOYBUTTONDOWN 3) ready =
     ready\<lparr>posted := [press 323]\<rparr> \<and>
   ev_dispatch sample_keys sample_keymap (SDL_JOYBUTTONUP 3) ready =
     ready\<lparr>posted := [release 323]\<rparr> \<and>
   ev_poll sample_keys sample_keymap [SDL_JOYBUTTONDOWN 3] ready =
     Returned (ready\<lparr>posted := [press 323]\<rparr>) \<and>
   ev_poll sample_keys sample_keymap [SDL_JOYBUTTONUP 3] ready =
     Returned (ready\<lparr>posted := [release 323]\<rparr>) \<and>
   new_events ready
     (state_of (ev_poll sample_keys sample_keymap [SDL_JOYBUTTONDOWN 3] ready)) =
     [press 323] \<and>
   new_events ready
     (state_of (ev_poll sample_keys sample_keymap [SDL_JOYBUTTONUP 3] ready)) =
     [release 323] \<and>
   ev_poll sample_keys sample_keymap [SDL_JOYBUTTONDOWN 16] ready = Returned ready \<and>
   new_events ready
     (state_of (ev_poll sample_keys sample_keymap [SDL_JOYBUTTONDOWN 16] ready)) = []"
proof -
  have h: "uint (3 :: 8 word) \<le> 15" "15 < uint (16 :: 8 word)" by simp_all
  have v: "K_JOY0 sample_keys + uint (3 :: 8 word) = 323"
    by (simp add: sample_keys_def)
  have p: "posted ready @ [press 323] = [press 323]"
    "posted ready @ [release 323] = [release 323]"
    by (simp_all add: ready_def)
  from joybutton_events [of 3 sample_keys sample_keymap ready "[]" 16, unfolded v p] h
  show ?thesis by blast
qed

section \<open>Properties of the key mapper\<close>

lemma mapscancode_map_of:
  "mapscancode km k =
     (case map_of (keymap_rows km) k of Some c \<Rightarrow> c | None \<Rightarrow> unmapped k)"
  by (induction km k rule: mapscancode.induct) (auto simp: keymap_rows_def)

lemma mapscancode_absent:
  "k \<notin> fst ` set (keymap_rows km) \<Longrightarrow> mapscancode km k = unmapped k"
  by (simp add: mapscancode_map_of map_of_eq_None_iff [THEN iffD2])

lemma mapscancode_present:
  assumes "k \<in> fst ` set (keymap_rows km)"
  shows "(k, mapscancode km k) \<in> set (keymap_rows km)"
proof -
  from assms obtain c where "map_of (keymap_rows km) k = Some c"
    by (cases "map_of (keymap_rows km) k") (auto simp: map_of_eq_None_iff)
  then show ?thesis
    by (simp add: mapscancode_map_of map_of_SomeD)
qed

text \<open>
  Claim C6. \<^verbatim>\<open>mapscancode\<close> is a function of the table and the key symbol alone and has a
  value for every symbol. For a symbol that is the key of a row of the table it returns
  the code paired with it (the code of the first such row); for a digit \<^verbatim>\<open>'0'..'9'\<close> or
  a lowercase letter \<^verbatim>\<open>'a'..'z'\<close> that is no key of the table it returns the symbol
  itself; for every other symbol that is no key of the table it returns 0.
\<close>

theorem mapscancode_total:
  "(map_of (keymap_rows km) k1 = Some c \<longrightarrow> mapscancode km k1 = c) \<and>
   (k1 \<in> fst ` set (keymap_rows km) \<longrightarrow>
      (k1, mapscancode km k1) \<in> set (keymap_rows km)) \<and>
   (k2 \<notin> fst ` set (keymap_rows km) \<and> alnum k2 \<longrightarrow> mapscancode km k2 = k2) \<and>
   (k3 \<notin> fst ` set (keymap_rows km) \<and> \<not> alnum k3 \<longrightarrow> mapscancode km k3 = 0)"
proof (intro conjI impI)
  assume "map_of (keymap_rows km) k1 = Some c"
  then show "mapscancode km k1 = c" by (simp add: mapscancode_map_of)
next
  assume "k1 \<in> fst ` set (keymap_rows km)"
  then show "(k1, mapscancode km k1) \<in> set (keymap_rows km)"
    by (rule mapscancode_present)
next
  assume "k2 \<notin> fst ` set (keymap_rows km) \<and> alnum k2"
  then show "mapscancode km k2 = k2"
    by (auto simp: mapscancode_absent unmapped_def alnum_def)
next
  assume "k3 \<notin> fst ` set (keymap_rows km) \<and> \<not> alnum k3"
  then show "mapscancode km k3 = 0"
    by (auto simp: mapscancode_absent unmapped_def alnum_def)
qed

text \<open>
  Witness for C6, on the sample table: the Return key (13) is a key of the table and maps
  to its code 201; the letter b (98) is no key of the table and maps to itself; the
  semicolon (59) is no key of the table and maps to 0.
\<close>

theorem mapscancode_total_witness:
  "map_of (keymap_rows sample_keymap) 13 = Some 201 \<and>
   13 \<in> fst ` set (keymap_rows sample_keymap) \<and>
   (98 \<notin> fst ` set (keymap_rows sample_keymap) \<and> alnum 98) \<and>
   (59 \<notin> fst ` set (keymap_rows sample_keymap) \<and> \<not> alnum 59) \<and>
   mapscancode sample_keymap 13 = 201 \<and>
   mapscancode sample_keymap 98 = 98 \<and>
   mapscancode sample_keymap 59 = 0"
proof -
  have h1: "map_of (keymap_rows sample_keymap) 13 = Some 201"
    by (simp add: keymap_rows_def sample_keymap_def)
  have h2: "13 \<in> fst ` set (keymap_rows sample_keymap)"
    by (simp add: keymap_rows_def sample_keymap_def)
  have h3: "98 \<notin> fst ` set (keymap_rows sample_keymap) \<and> alnum 98"
    by (simp add: keymap_rows_def sample_keymap_def alnum_def)
  have h4: "59 \<notin> fst ` set (keymap_rows sample_keymap) \<and> \<not> alnum 59"
    by (simp add: keymap_rows_def sample_keymap_def alnum_def)
  from mapscancode_total [of sample_keymap 13 201 98 59] h1 h2 h3 h4
  show ?thesis by blast
qed



section \<open>The alt-enter setting\<close>

lemma joyaxis_evt_use_altenter:
  "joyaxis_evt K a s (st\<lparr>use_altenter := b\<rparr>) = (joyaxis_evt K a s st)\<lparr>use_altenter := b\<rparr>"
  by (cases a) (simp_all add: joyaxis_evt_def Let_def ev_postevent_def)

lemma hat_evt_use_altenter:
  "hat_evt K v (st\<lparr>use_altenter := b\<rparr>) = (hat_evt K v st)\<lparr>use_altenter := b\<rparr>"
  by (simp add: hat_evt_def joyaxis_evt_use_altenter)

lemma ev_dispatch_use_altenter:
  "ev_dispatch K km e (st\<lparr>use_altenter := b\<rparr>) = (ev_dispatch K km e st)\<lparr>use_altenter := b\<rparr>"
proof (cases e)
  case (SDL_WINDOWEVENT w)
  then show ?thesis by (cases w) simp_all
next
  case (SDL_KEYDOWN k m)
  then show ?thesis by (simp add: Let_def ev_postevent_def sdl_def)
next
  case (SDL_KEYUP k m)
  then show ?thesis by (simp add: ev_postevent_def)
next
  case (SDL_JOYHATMOTION v)
  then show ?thesis by (simp add: hat_evt_use_altenter)
next
  case (SDL_JOYAXISMOTION a v)
  then show ?thesis by (simp add: joyaxis_evt_use_altenter)
next
  case (SDL_JOYBUTTONUP b)
  then show ?thesis by (simp add: ev_postevent_def)
next
  case (SDL_JOYBUTTONDOWN b)
  then show ?thesis by (simp add: ev_postevent_def)
qed simp_all

lemma ev_poll_use_altenter:
  "ev_poll K km evs (st\<lparr>use_altenter := b\<rparr>) =
     map_outcome (\<lambda>s. s\<lparr>use_altenter := b\<rparr>) (ev_poll K km evs st)"
  by (induction evs arbitrary: st) (simp_all add: ev_dispatch_use_altenter)

text \<open>
  Claim C10. \<^verbatim>\<open>use_altenter\<close> has no effect. Two runs of \<^verbatim>\<open>ev_poll\<close> on the same queue,
  from states that differ only in \<^verbatim>\<open>use_altenter\<close>, end the same way (return or exit)
  in states that again differ only in \<^verbatim>\<open>use_altenter\<close>: the same events posted, the same
  host calls, the same fullscreen flag. Polling a key-down of the Return key with an ALT
  modifier held flips the fullscreen flag, asks the host to re-flag the window and posts
  the PRESS of the key, whatever value \<open>b\<close> the setting \<^verbatim>\<open>use_altenter\<close> has; with more
  events behind it in the queue, polling goes on from that state.
\<close>

theorem use_altenter_no_effect:
  "ev_poll K km evs (st\<lparr>use_altenter := b\<rparr>) =
     map_outcome (\<lambda>s. s\<lparr>use_altenter := b\<rparr>) (ev_poll K km evs st) \<and>
   (kmod AND KMOD_ALT \<noteq> 0 \<longrightarrow>
      fullscreen (ev_dispatch K km (SDL_KEYDOWN SDLK_RETURN kmod) st) =
        (if fullscreen st = 0 then 1 else 0) \<and>
      new_calls st (ev_dispatch K km (SDL_KEYDOWN SDLK_RETURN kmod) st) =
        [SDL_SetWindowFullscreen
           (if fullscreen st \<noteq> 0 then 0 else SDL_WINDOW_FULLSCREEN)] \<and>
      ev_poll K km [SDL_KEYDOWN SDLK_RETURN kmod] (st\<lparr>use_altenter := b\<rparr>) =
        Returned (st\<lparr>use_altenter := b,
          sdl_calls := sdl_calls st @
            [SDL_SetWindowFullscreen
               (if fullscreen st \<noteq> 0 then 0 else SDL_WINDOW_FULLSCREEN)],
          fullscreen := (if fullscreen st = 0 then 1 else 0),
          posted := posted st @ [press (mapscancode km SDLK_RETURN)]\<rparr>) \<and>
      ev_poll K km (SDL_KEYDOWN SDLK_RETURN kmod # evs) (st\<lparr>use_altenter := b\<rparr>) =
        ev_poll K km evs (st\<lparr>use_altenter := b,
          sdl_calls := sdl_calls st @
            [SDL_SetWindowFullscreen
               (if fullscreen st \<noteq> 0 then 0 else SDL_WINDOW_FULLSCREEN)],
          fullscreen := (if fullscreen st = 0 then 1 else 0),
          posted := posted st @ [press (mapscancode km SDLK_RETURN)]\<rparr>))"
proof (intro conjI impI)
  show "ev_poll K km evs (st\<lparr>use_altenter := b\<rparr>) =
     map_outcome (\<lambda>s. s\<lparr>use_altenter := b\<rparr>) (ev_poll K km evs st)"
    by (rule ev_poll_use_altenter)
qed (simp_all add: Let_def ev_postevent_def sdl_def new_calls_def press_def
      SDLK_RETURN_def)

text \<open>
  Witness for C10: Return with the left ALT key held (modifier bit 0x0100) is polled
  once with \<^verbatim>\<open>use_altenter\<close> set to 0 and once with it set to 1. Both runs take the
  fullscreen flag from 0 to 1, ask the host for a fullscreen window and post the PRESS of
  the Return key (code 201 in the sample table).
\<close>

theorem use_altenter_no_effect_witness:
  "(0x0100 :: 16 word) AND KMOD_ALT \<noteq> 0 \<and>
   ev_poll sample_keys sample_keymap [SDL_KEYDOWN SDLK_RETURN 0x0100]
       (ready\<lparr>use_altenter := 0\<rparr>) =
     Returned (ready\<lparr>use_altenter := 0,
       sdl_calls := [SDL_LockSurface 1000, SDL_UnlockSurface 1000,
                     SDL_SetWindowFullscreen 1],
       fullscreen := 1, posted := [press 201]\<rparr>) \<and>
   ev_poll sample_keys sample_keymap [SDL_KEYDOWN SDLK_RETURN 0x0100]
       (ready\<lparr>use_altenter := 1\<rparr>) =
     Returned (ready\<lparr>use_altenter := 1,
       sdl_calls := [SDL_LockSurface 1000, SDL_UnlockSurface 1000,
                     SDL_SetWindowFullscreen 1],
       fullscreen := 1, posted := [press 201]\<rparr>) \<and>
   fullscreen (ev_dispatch sample_keys sample_keymap (SDL_KEYDOWN SDLK_RETURN 0x0100)
     ready) = 1 \<and>
   new_calls ready
     (ev_dispatch sample_keys sample_keymap (SDL_KEYDOWN SDLK_RETURN 0x0100) ready) =
     [SDL_SetWindowFullscreen 1]"
proof -
  have h: "(0x0100 :: 16 word) AND KMOD_ALT \<noteq> 0" by (simp add: KMOD_ALT_def)
  have g1: "(if fullscreen ready = 0 then 1 else 0) = (1 :: int)"
    by (simp add: ready_def)
  have g2: "(if fullscreen ready \<noteq> 0 then 0 else SDL_WINDOW_FULLSCREEN) = 1"
    by (simp add: ready_def SDL_WINDOW_FULLSCREEN_def)
  have g3: "sdl_calls ready @ [SDL_SetWindowFullscreen 1] =
      [SDL_LockSurface 1000, SDL_UnlockSurface 1000, SDL_SetWindowFullscreen 1]"
    by (simp add: ready_def)
  have g4: "posted ready @ [press (mapscancode sample_keymap SDLK_RETURN)] = [press 201]"
    by (simp add: ready_def sample_keymap_def SDLK_RETURN_def)
  from use_altenter_no_effect
    [of sample_keys sample_keymap "[]" 0 ready "0x0100", unfolded g1 g2 g3 g4]
    use_altenter_no_effect
    [of sample_keys sample_keymap "[]" 1 ready "0x0100", unfolded g1 g2 g3 g4] h
  show ?thesis by blast
qed

section \<open>Properties of the presentation pipeline\<close>

lemma vid_cycle_enabled:
  "fb_enabled st \<noteq> 0 \<Longrightarrow>
   vid_end (vid_begin st) =
     st\<lparr>screen := snd (screens st), fb_ptr := screen st,
        sdl_calls := sdl_calls st @
          [SDL_LockSurface (screen st), SDL_UnlockSurface (screen st),
           SDL_UpdateTexture (screen st), SDL_RenderClear, SDL_RenderCopy,
           SDL_RenderPresent]\<rparr>"
  by (simp add: vid_end_def vid_begin_def sdl_def Let_def)

text \<open>After one or more frames with presentation enabled the front surface is
  \<^verbatim>\<open>screens[1]\<close>, whatever it was before.\<close>

lemma frames_enabled:
  "fb_enabled st \<noteq> 0 \<Longrightarrow> 0 < n \<Longrightarrow>
   screen (frames n st) = snd (screens st) \<and> screens (frames n st) = screens st \<and>
   fb_enabled (frames n st) = fb_enabled st"
proof (induction n arbitrary: st)
  case 0
  then show ?case by simp
next
  case (Suc n)
  show ?case
  proof (cases n)
    case 0
    with Suc.prems show ?thesis by (simp add: vid_cycle_enabled)
  next
    case (Suc m)
    with Suc.IH [of "vid_end (vid_begin st)"] Suc.prems show ?thesis
      by (simp add: vid_cycle_enabled)
  qed
qed

text \<open>
  Claim C3 does not hold of the code. After \<^verbatim>\<open>vid_init\<close> the front surface is
  \<^verbatim>\<open>screens[0]\<close>, index 0. With presentation enabled throughout, it is \<^verbatim>\<open>screens[1]\<close>
  after one frame and still \<^verbatim>\<open>screens[1]\<close> after two, where the claim asks for index
  2 mod 2 = 0: both branches of the swap in \<^verbatim>\<open>vid_end\<close> assign \<^verbatim>\<open>screens[1]\<close>.
\<close>

theorem front_surface_after_two_frames:
  "vid_init True True 1000 2000 statics = Inr ready \<and>
   front_index ready = 0 \<and>
   fb_enabled (frames 1 ready) = 1 \<and> fb_enabled (frames 2 ready) = 1 \<and>
   front_index (frames 1 ready) = 1 \<and>
   front_index (frames 2 ready) = 1 \<and>
   front_index (frames 2 ready) \<noteq> (front_index ready + 2) mod 2"
  using vid_init_ready
  by (simp add: numeral_2_eq_2 vid_cycle_enabled front_index_def ready_def)

text \<open>
  Claim C4, as the spec states it, fails on the code. With \<^verbatim>\<open>fb.enabled\<close> false,
  \<^verbatim>\<open>vid_end\<close> leaves the front surface where it was (index 0 before and after), while
  the same call with \<^verbatim>\<open>fb.enabled\<close> true moves it to index 1: the swap is inside the
  branch for the enabled case and is not performed by the disabled call.
\<close>

theorem vid_end_disabled_counterexample:
  "fb_enabled hidden = 0 \<and> front_index hidden = 0 \<and>
   front_index (vid_end hidden) = 0 \<and>
   front_index (vid_end ready) = 1"
  by (simp add: hidden_def ready_def vid_end_def sdl_def front_index_def)

text \<open>
  Claim C4, amended. When \<^verbatim>\<open>fb.enabled\<close> is false, \<^verbatim>\<open>vid_end\<close> unlocks the front surface
  and does nothing else: no texture upload, no renderer clear or copy, no present call,
  and no swap of the front surface either; the front surface and all other state are
  unchanged by the disabled call.
\<close>

theorem vid_end_disabled:
  "fb_enabled st = 0 \<Longrightarrow>
     vid_end st = st\<lparr>sdl_calls := sdl_calls st @ [SDL_UnlockSurface (screen st)]\<rparr> \<and>
     new_calls st (vid_end st) = [SDL_UnlockSurface (screen st)] \<and>
     screen (vid_end st) = screen st"
  by (simp add: vid_end_def sdl_def new_calls_def)

text \<open>Witness for C4: the state after \<^verbatim>\<open>vid_init\<close> with the window hidden.\<close>

theorem vid_end_disabled_witness:
  "fb_enabled hidden = 0 \<and>
   new_calls hidden (vid_end hidden) = [SDL_UnlockSurface 1000] \<and>
   screen (vid_end hidden) = 1000"
proof -
  have h: "fb_enabled hidden = 0" by (simp add: hidden_def)
  have s: "screen hidden = 1000" by (simp add: hidden_def ready_def)
  from vid_end_disabled [OF h]
  have "new_calls hidden (vid_end hidden) = [SDL_UnlockSurface (screen hidden)] \<and>
        screen (vid_end hidden) = screen hidden"
    by blast
  with h s show ?thesis by simp
qed

end
